theory Spec2Isabelle
  imports Complex_Main "HOL-Library.Multiset" "HOL-Library.AList"
begin

section \<open>Strings and objects\<close>

text \<open>
  Strings are lists of characters; a character stands for a code unit in the Latin-1
  range. A plain object with string values (\<open>Record<string, string>\<close>) is the list of its
  properties in the order in which they were created, with no key twice.
\<close>

type_synonym condition = "(string \<times> string) list"

definition is_digit :: "char \<Rightarrow> bool" where
  "is_digit c = (48 \<le> (of_char c :: nat) \<and> (of_char c :: nat) \<le> 57)"

definition digit_val :: "char \<Rightarrow> nat" where
  "digit_val c = of_char c - 48"

definition dec_val :: "string \<Rightarrow> nat" where
  "dec_val s = foldl (\<lambda>a c. 10 * a + digit_val c) 0 s"

text \<open>
  An array index is a canonical numeric string (no sign, no leading zero) whose value is
  below \<open>2^32 - 1 = 4294967295\<close>. The own keys of an object enumerate the array indices first, in
  ascending numeric order, and then the other string keys in creation order.
\<close>

definition is_array_index :: "string \<Rightarrow> bool" where
  "is_array_index s =
     (s \<noteq> [] \<and> list_all is_digit s \<and> (s = ''0'' \<or> hd s \<noteq> CHR ''0'') \<and> dec_val s < 4294967295)"

text \<open>A string of digits that does not begin with \<open>0\<close>; it may be empty.\<close>

definition no_leading_zero :: "string \<Rightarrow> bool" where
  "no_leading_zero s = (list_all is_digit s \<and> (s \<noteq> [] \<longrightarrow> hd s \<noteq> CHR ''0''))"

definition own_entries :: "condition \<Rightarrow> condition" where
  "own_entries c =
     sort_key (\<lambda>e. dec_val (fst e)) (filter (\<lambda>e. is_array_index (fst e)) c)
     @ filter (\<lambda>e. \<not> is_array_index (fst e)) c"

subsection \<open>\<open>JSON.stringify\<close> on strings and flat objects\<close>

definition hex_digit :: "nat \<Rightarrow> char" where
  "hex_digit n = (if n < 10 then char_of (48 + n) else char_of (87 + n))"

definition quote_char :: "char \<Rightarrow> string" where
  "quote_char c =
     (let n = (of_char c :: nat) in
      if n = 8 then [CHR 0x5C, CHR ''b'']
      else if n = 9 then [CHR 0x5C, CHR ''t'']
      else if n = 10 then [CHR 0x5C, CHR ''n'']
      else if n = 12 then [CHR 0x5C, CHR ''f'']
      else if n = 13 then [CHR 0x5C, CHR ''r'']
      else if n = 34 then [CHR 0x5C, CHR 0x22]
      else if n = 92 then [CHR 0x5C, CHR 0x5C]
      else if n < 32 then
        [CHR 0x5C, CHR ''u'', CHR ''0'', CHR ''0'', hex_digit (n div 16), hex_digit (n mod 16)]
      else [c])"

definition quote_string :: "string \<Rightarrow> string" where
  "quote_string s = [CHR 0x22] @ concat (map quote_char s) @ [CHR 0x22]"

fun join :: "string \<Rightarrow> string list \<Rightarrow> string" where
  "join sep [] = []"
| "join sep [x] = x"
| "join sep (x # y # ys) = x @ sep @ join sep (y # ys)"

definition JSON_stringify :: "condition \<Rightarrow> string" where
  "JSON_stringify c =
     ''{'' @ join '','' (map (\<lambda>(k, v). quote_string k @ '':'' @ quote_string v) (own_entries c)) @ ''}''"

section \<open>EventSubManager\<close>

definition makeKey :: "string \<Rightarrow> condition \<Rightarrow> string" where
  "makeKey type condition = type @ '':'' @ JSON_stringify condition"

subsection \<open>Data\<close>

text \<open>
  \<open>StoredSubscription\<close> is the interface of that name; \<open>Descriptor\<close> is one element of
  the \<open>data\<close> array answered by the Helix API, of which the manager reads \<open>id\<close> and
  \<open>expires_at\<close>.
\<close>

record StoredSubscription =
  sub_id :: string
  sub_type :: string
  sub_condition :: condition
  expires_at :: string

record Descriptor =
  d_id :: string
  d_expires_at :: string

datatype error =
    ReadError
  | SyntaxError
  | WriteError
  | RequestError string
  | TypeError

text \<open>
  \<open>JSON.parse\<close> returns whatever value the text denotes, and \<open>loadState\<close> hands it on
  without looking at its shape: the state is a JSON value. An object lists its properties
  in creation order, with no key twice. A number is a real (every finite double is one).
\<close>

datatype json =
    JNull
  | JBool bool
  | JNum real
  | JStr string
  | JArr "json list"
  | JObj "(string \<times> json) list"

text \<open>
  The state file either does not exist, cannot be read, or holds a text; the text either
  is not JSON or is the encoding of a JSON value. The encoding of a value is identified
  with the value.
\<close>

datatype raw = Garbled | Encoded json

datatype medium = Missing | Unreadable | Holds raw

type_synonym request = "string \<times> condition \<times> string \<times> string"

type_synonym timer = "int option \<times> request"

text \<open>
  What the manager does not decide is an oracle of the environment: the successive
  readings of \<open>Date.now()\<close>, the outcome of the k-th call of
  \<open>createEventSubSubscription\<close> (a rejection, or the \<open>data\<close> array of the response), the
  outcome of the k-th \<open>fs.writeFile\<close> (\<open>None\<close> when the text was written, otherwise the
  medium a failed write leaves behind), and \<open>new Date(v).getTime()\<close> for a value \<open>v\<close>
  (the argument \<open>None\<close> is \<open>undefined\<close>, the result \<open>None\<close> is NaN).
\<close>

record env =
  clock :: "nat \<Rightarrow> int"
  remote :: "nat \<Rightarrow> error + Descriptor list"
  disk :: "nat \<Rightarrow> medium option"
  getTime :: "json option \<Rightarrow> int option"

record world =
  stateFile :: medium
  ticks :: nat
  calls :: "request list"
  writes :: nat
  timers :: "timer list"
  logs :: "string list"

subsection \<open>Values\<close>

text \<open>The object literal \<open>{ id, type, condition, expires_at }\<close> that the manager stores.\<close>

definition record_object :: "StoredSubscription \<Rightarrow> json" where
  "record_object r =
     JObj [(''id'', JStr (sub_id r)),
           (''type'', JStr (sub_type r)),
           (''condition'', JObj (map (\<lambda>(k, v). (k, JStr v)) (sub_condition r))),
           (''expires_at'', JStr (expires_at r))]"

text \<open>Truthiness of a value; \<open>None\<close> is \<open>undefined\<close>.\<close>

definition truthy :: "json option \<Rightarrow> bool" where
  "truthy v =
     (case v of
        None \<Rightarrow> False
      | Some JNull \<Rightarrow> False
      | Some (JBool b) \<Rightarrow> b
      | Some (JNum x) \<Rightarrow> x \<noteq> 0
      | Some (JStr s) \<Rightarrow> s \<noteq> []
      | Some (JArr xs) \<Rightarrow> True
      | Some (JObj ps) \<Rightarrow> True)"

text \<open>
  Reading and writing a property. The two names the manager uses are \<open>expires_at\<close> and a
  key made by \<open>makeKey\<close>, which contains a colon: neither is an array index, \<open>length\<close> or
  the name of an inherited property. So only an object has the property, reading it from
  any other value but \<open>null\<close> gives \<open>undefined\<close>, and reading it from \<open>null\<close> throws.
  Writing it creates or replaces the property of an object; on an array it creates a
  property that is no element, which \<open>JSON.stringify\<close> leaves out, so that the value as it
  is serialised is unchanged; on \<open>null\<close> and, the module being strict code, on a boolean, a
  number or a string it throws.
\<close>

definition member :: "json \<Rightarrow> string \<Rightarrow> json option" where
  "member v name = (case v of JObj ps \<Rightarrow> map_of ps name | _ \<Rightarrow> None)"

definition getProperty :: "json \<Rightarrow> string \<Rightarrow> error + json option" where
  "getProperty v name = (case v of JNull \<Rightarrow> Inl TypeError | _ \<Rightarrow> Inr (member v name))"

definition setProperty :: "json \<Rightarrow> string \<Rightarrow> json \<Rightarrow> error + json" where
  "setProperty v name x =
     (case v of
        JObj ps \<Rightarrow> Inr (JObj (AList.update name x ps))
      | JArr xs \<Rightarrow> Inr (JArr xs)
      | _ \<Rightarrow> Inl TypeError)"

subsection \<open>Operations\<close>

definition Date_now :: "env \<Rightarrow> world \<Rightarrow> int \<times> world" where
  "Date_now e w = (clock e (ticks w), w\<lparr>ticks := Suc (ticks w)\<rparr>)"

definition readFile :: "medium \<Rightarrow> error + raw" where
  "readFile m = (case m of Missing \<Rightarrow> Inl ReadError | Unreadable \<Rightarrow> Inl ReadError | Holds r \<Rightarrow> Inr r)"

definition JSON_parse :: "raw \<Rightarrow> error + json" where
  "JSON_parse r = (case r of Garbled \<Rightarrow> Inl SyntaxError | Encoded v \<Rightarrow> Inr v)"

definition loadState :: "world \<Rightarrow> error + json" where
  "loadState w =
     (case readFile (stateFile w) of
        Inl _ \<Rightarrow> Inr (JObj [])
      | Inr r \<Rightarrow> (case JSON_parse r of Inl _ \<Rightarrow> Inr (JObj []) | Inr v \<Rightarrow> Inr v))"

definition saveState :: "env \<Rightarrow> json \<Rightarrow> world \<Rightarrow> (error + unit) \<times> world" where
  "saveState e st w =
     (case disk e (writes w) of
        None \<Rightarrow> (Inr (), w\<lparr>stateFile := Holds (Encoded st), writes := Suc (writes w)\<rparr>)
      | Some m \<Rightarrow> (Inl WriteError, w\<lparr>stateFile := m, writes := Suc (writes w)\<rparr>))"

definition scheduleRenewal ::
  "env \<Rightarrow> json option \<Rightarrow> string \<Rightarrow> condition \<Rightarrow> string \<Rightarrow> string \<Rightarrow> world \<Rightarrow> world" where
  "scheduleRenewal e expires type condition callback secret w =
     (let (now, w1) = Date_now e w;
          delay = map_option (\<lambda>t. t - now - 60 * 1000) (getTime e expires)
      in w1\<lparr>timers := timers w1 @ [(map_option (\<lambda>d. max d 0) delay, (type, condition, callback, secret))]\<rparr>)"

text \<open>The test \<open>existing && new Date(existing.expires_at).getTime() - now > 60 * 1000\<close>.\<close>

definition is_fresh :: "env \<Rightarrow> json option \<Rightarrow> int \<Rightarrow> bool" where
  "is_fresh e existing now =
     (truthy existing \<and>
      (case existing of
         None \<Rightarrow> False
       | Some r \<Rightarrow>
           (case getTime e (member r ''expires_at'') of
              None \<Rightarrow> False
            | Some t \<Rightarrow> t - now > 60 * 1000)))"

text \<open>
  \<open>TwitchClient.createEventSubSubscription\<close>: the request is sent, and its outcome comes
  from the environment. The client logs the request when it succeeded.
\<close>

definition createEventSubSubscription ::
  "env \<Rightarrow> string \<Rightarrow> condition \<Rightarrow> string \<Rightarrow> string \<Rightarrow> world \<Rightarrow> (error + Descriptor list) \<times> world" where
  "createEventSubSubscription e type condition callback secret w =
     (let w1 = w\<lparr>calls := calls w @ [(type, condition, callback, secret)]\<rparr> in
      case remote e (length (calls w)) of
        Inl err \<Rightarrow> (Inl err, w1)
      | Inr data \<Rightarrow> (Inr data, w1\<lparr>logs := logs w1 @ [''EventSub subscription requested'']\<rparr>))"

text \<open>
  \<open>ensureSubscription\<close>. When the test \<open>is_fresh\<close> holds, \<open>existing\<close> is a value. Reading
  \<open>resp.data[0].id\<close> on an empty array throws a TypeError.
\<close>

definition ensureSubscription ::
  "env \<Rightarrow> string \<Rightarrow> condition \<Rightarrow> string \<Rightarrow> string \<Rightarrow> world \<Rightarrow> (error + unit) \<times> world" where
  "ensureSubscription e type condition callback secret w =
     (case loadState w of
        Inl err \<Rightarrow> (Inl err, w)
      | Inr state \<Rightarrow>
          let key = makeKey type condition in
          (case getProperty state key of
             Inl err \<Rightarrow> (Inl err, w)
           | Inr existing \<Rightarrow>
               let (now, w1) = Date_now e w in
               (case (if is_fresh e existing now then existing else None) of
                  Some r \<Rightarrow>
                    (Inr (), scheduleRenewal e (member r ''expires_at'') type condition callback secret w1)
                | None \<Rightarrow>
                    (case createEventSubSubscription e type condition callback secret w1 of
                       (Inl err, w2) \<Rightarrow> (Inl err, w2)
                     | (Inr data, w2) \<Rightarrow>
                         (case data of
                            [] \<Rightarrow> (Inl TypeError, w2)
                          | sub # _ \<Rightarrow>
                              (case setProperty state key
                                      (record_object
                                         \<lparr>sub_id = d_id sub, sub_type = type, sub_condition = condition,
                                          expires_at = d_expires_at sub\<rparr>) of
                                 Inl err \<Rightarrow> (Inl err, w2)
                               | Inr state' \<Rightarrow>
                                   (case saveState e state' w2 of
                                      (Inl err, w3) \<Rightarrow> (Inl err, w3)
                                    | (Inr _, w3) \<Rightarrow>
                                        (Inr (),
                                         scheduleRenewal e (Some (JStr (d_expires_at sub)))
                                           type condition callback secret
                                           (w3\<lparr>logs := logs w3 @ [''EventSub subscription ensured'']\<rparr>)))))))))"

text \<open>
  The callback of a renewal timer calls \<open>ensureSubscription\<close> again and logs a rejection
  instead of passing it on.
\<close>

definition renewalCallback :: "env \<Rightarrow> request \<Rightarrow> world \<Rightarrow> world" where
  "renewalCallback e rq w =
     (case rq of (type, condition, callback, secret) \<Rightarrow>
        (case ensureSubscription e type condition callback secret w of
           (Inl err, w') \<Rightarrow> w'\<lparr>logs := logs w' @ [''Failed to renew EventSub subscription'']\<rparr>
         | (Inr _, w') \<Rightarrow> w'))"

section \<open>ChatBot\<close>

subsection \<open>String methods\<close>

text \<open>
  \<open>toLowerCase\<close> on the Latin-1 range: the letters A to Z and the accented capitals
  U+00C0 to U+00DE (the multiplication sign U+00D7 apart) move up by 32.
\<close>

definition lower_char :: "char \<Rightarrow> char" where
  "lower_char c =
     (let n = (of_char c :: nat) in
      if (65 \<le> n \<and> n \<le> 90) \<or> (192 \<le> n \<and> n \<le> 222 \<and> n \<noteq> 215) then char_of (n + 32) else c)"

definition toLowerCase :: "string \<Rightarrow> string" where
  "toLowerCase s = map lower_char s"

definition startsWith :: "string \<Rightarrow> string \<Rightarrow> bool" where
  "startsWith s p = (take (length p) s = p)"

definition slice :: "string \<Rightarrow> nat \<Rightarrow> string" where
  "slice s n = drop n s"

text \<open>\<open>s.split(sep)\<close> for a separator of one character: never empty, \<open>[""]\<close> on \<open>""\<close>.\<close>

fun split :: "char \<Rightarrow> string \<Rightarrow> string list" where
  "split sep [] = ['''']"
| "split sep (c # cs) =
     (if c = sep then [] # split sep cs
      else (let ps = split sep cs in (c # hd ps) # tl ps))"

subsection \<open>Data\<close>

datatype UserRole = Broadcaster | Mod | Vip | Subscriber | Viewer

record CommandOptions =
  cooldownMs :: "int option"
  roles :: "UserRole list option"

record Badges =
  broadcaster :: "string option"
  vip :: "string option"
  subscriber :: "string option"

record ChatUserstate =
  user_id :: "string option"
  username :: "string option"
  badges :: "Badges option"
  is_mod :: bool

text \<open>
  A handler is an opaque callback: it is named by a number, and calling it is recorded
  with its three arguments.
\<close>

type_synonym CommandHandler = nat

record entry =
  handler :: CommandHandler
  options :: CommandOptions

type_synonym invocation = "CommandHandler \<times> string \<times> ChatUserstate \<times> string"

record ChatBot =
  commands :: "string \<rightharpoonup> entry"
  lastRun :: "string \<rightharpoonup> int"
  chatMessageCounter :: nat
  debug :: "string list"
  invoked :: "invocation list"
  reads :: nat

subsection \<open>Operations\<close>

definition registerCommand :: "string \<Rightarrow> CommandHandler \<Rightarrow> CommandOptions \<Rightarrow> ChatBot \<Rightarrow> ChatBot" where
  "registerCommand command h opts b =
     b\<lparr>commands := (commands b)(toLowerCase command \<mapsto> \<lparr>handler = h, options = opts\<rparr>)\<rparr>"

text \<open>A badge is a string when present; a present, non-empty string is truthy.\<close>

definition badge :: "(Badges \<Rightarrow> string option) \<Rightarrow> ChatUserstate \<Rightarrow> bool" where
  "badge sel user =
     (case badges user of
        None \<Rightarrow> False
      | Some bs \<Rightarrow> (case sel bs of None \<Rightarrow> False | Some v \<Rightarrow> v \<noteq> []))"

definition getRole :: "ChatUserstate \<Rightarrow> UserRole" where
  "getRole user =
     (if badge broadcaster user then Broadcaster
      else if is_mod user then Mod
      else if badge vip user then Vip
      else if badge subscriber user then Subscriber
      else Viewer)"

definition throttleKey :: "ChatUserstate \<Rightarrow> string \<Rightarrow> string" where
  "throttleKey user cmd = (case user_id user of None \<Rightarrow> ''undefined'' | Some u \<Rightarrow> u) @ '':'' @ cmd"

definition invoke :: "entry \<Rightarrow> string \<Rightarrow> ChatUserstate \<Rightarrow> string list \<Rightarrow> ChatBot \<Rightarrow> ChatBot" where
  "invoke en channel user args b =
     b\<lparr>invoked := invoked b @ [(handler en, channel, user, join '' '' args)]\<rparr>"

text \<open>
  \<open>handleMessage\<close>, with the readings of \<open>Date.now()\<close> as an oracle. A cooldown counts when
  it is present and not zero.
\<close>

definition handleMessage ::
  "(nat \<Rightarrow> int) \<Rightarrow> string \<Rightarrow> ChatUserstate \<Rightarrow> string \<Rightarrow> bool \<Rightarrow> ChatBot \<Rightarrow> ChatBot" where
  "handleMessage now_at channel userstate message self b =
     (if self \<or> \<not> startsWith message ''!'' then b
      else
        let b1 = b\<lparr>chatMessageCounter := chatMessageCounter b + 1\<rparr>;
            parts = split CHR '' '' (slice message 1);
            cmd = hd parts;
            args = tl parts
        in
          (case commands b1 (toLowerCase cmd) of
             None \<Rightarrow> b1
           | Some en \<Rightarrow>
               let role = getRole userstate in
               if (case roles (options en) of None \<Rightarrow> False | Some rs \<Rightarrow> role \<notin> set rs) then
                 b1\<lparr>debug := debug b1 @ [''Command rejected due to insufficient role'']\<rparr>
               else
                 (case cooldownMs (options en) of
                    None \<Rightarrow> invoke en channel userstate args b1
                  | Some cd \<Rightarrow>
                      if cd = 0 then invoke en channel userstate args b1
                      else
                        let key = throttleKey userstate cmd;
                            last = (case lastRun b1 key of None \<Rightarrow> 0 | Some t \<Rightarrow> t);
                            now = now_at (reads b1);
                            b2 = b1\<lparr>reads := Suc (reads b1)\<rparr>
                        in
                          if now - last < cd then b2\<lparr>debug := debug b2 @ [''Command throttled'']\<rparr>
                          else invoke en channel userstate args (b2\<lparr>lastRun := (lastRun b2)(key \<mapsto> now)\<rparr>))))"

subsection \<open>The dispatch as the specification words it\<close>

text \<open>
  The specification splits the text after the prefix "on the first whitespace run". These
  two functions follow those words; they are compared with what \<open>handleMessage\<close> does.
\<close>

definition is_whitespace :: "char \<Rightarrow> bool" where
  "is_whitespace c = ((of_char c :: nat) \<in> {9, 10, 11, 12, 13, 32})"

definition spec_commandName :: "string \<Rightarrow> string" where
  "spec_commandName body = toLowerCase (takeWhile (\<lambda>c. \<not> is_whitespace c) body)"

definition spec_argsRemainder :: "string \<Rightarrow> string" where
  "spec_argsRemainder body = dropWhile is_whitespace (dropWhile (\<lambda>c. \<not> is_whitespace c) body)"

section \<open>Fixtures\<close>

text \<open>
  The mock client of the repository's test answers every request with one descriptor
  \<open>sub1\<close> that expires an hour later; the state file does not exist at first. The clock
  starts at 1700000000000 ms, which is 2023-11-14T22:13:20Z.
\<close>

definition mock_env :: env where
  "mock_env =
     \<lparr>clock = (\<lambda>k. 1700000000000 + int k),
      remote = (\<lambda>k. Inr [\<lparr>d_id = ''sub1'', d_expires_at = ''2023-11-14T23:13:20.000Z''\<rparr>]),
      disk = (\<lambda>k. None),
      getTime = (\<lambda>v. if v = Some (JStr ''2023-11-14T23:13:20.000Z'') then Some 1700003600000 else None)\<rparr>"

definition failing_env :: env where
  "failing_env = mock_env\<lparr>remote := (\<lambda>k. Inl (RequestError ''503''))\<rparr>"

definition empty_env :: env where
  "empty_env = mock_env\<lparr>remote := (\<lambda>k. Inr [])\<rparr>"

text \<open>An environment in which every write fails and leaves a truncated text behind.\<close>

definition crashing_env :: env where
  "crashing_env = mock_env\<lparr>disk := (\<lambda>k. Some (Holds Garbled))\<rparr>"

definition fresh_world :: world where
  "fresh_world = \<lparr>stateFile = Missing, ticks = 0, calls = [], writes = 0, timers = [], logs = []\<rparr>"



definition online_request :: request where
  "online_request = (''stream.online'', [(''broadcaster_user_id'', ''1'')], ''cb'', ''secret'')"

definition online_record :: json where
  "online_record =
     record_object
       \<lparr>sub_id = ''sub1'', sub_type = ''stream.online'',
        sub_condition = [(''broadcaster_user_id'', ''1'')],
        expires_at = ''2023-11-14T23:13:20.000Z''\<rparr>"

definition ensured_world :: world where
  "ensured_world =
     \<lparr>stateFile = Holds (Encoded
        (JObj [(makeKey ''stream.online'' [(''broadcaster_user_id'', ''1'')], online_record)])),
      ticks = 2, calls = [online_request], writes = 1,
      timers = [(Some 3539999, online_request)],
      logs = [''EventSub subscription requested'', ''EventSub subscription ensured'']\<rparr>"

definition attempted_world :: world where
  "attempted_world = fresh_world\<lparr>ticks := 1, calls := [online_request]\<rparr>"

definition answered_world :: world where
  "answered_world = attempted_world\<lparr>logs := [''EventSub subscription requested'']\<rparr>"

text \<open>
  The chat bot of the repository's test: \<open>ping\<close> with a cooldown of one second, sent by
  the viewer \<open>alice\<close>, with a clock that stands still.
\<close>

definition still_clock :: "int \<Rightarrow> nat \<Rightarrow> int" where
  "still_clock t k = t"

definition new_bot :: ChatBot where
  "new_bot = \<lparr>commands = Map.empty, lastRun = Map.empty, chatMessageCounter = 0, debug = [],
              invoked = [], reads = 0\<rparr>"

definition ping_bot :: ChatBot where
  "ping_bot = registerCommand ''ping'' 0 \<lparr>cooldownMs = Some 1000, roles = None\<rparr> new_bot"

definition alice :: ChatUserstate where
  "alice = \<lparr>user_id = Some ''1'', username = Some ''alice'',
            badges = Some \<lparr>broadcaster = None, vip = None, subscriber = None\<rparr>, is_mod = False\<rparr>"

section \<open>Properties of the subscription key\<close>

subsection \<open>Array indices are read back from their value\<close>

lemma dec_val_snoc: "dec_val (s @ [c]) = 10 * dec_val s + digit_val c"
  by (simp add: dec_val_def)

lemma digit_val_less: "is_digit c \<Longrightarrow> digit_val c < 10"
  unfolding is_digit_def digit_val_def by linarith

lemma digit_val_inj: "is_digit c \<Longrightarrow> is_digit d \<Longrightarrow> digit_val c = digit_val d \<Longrightarrow> c = d"
proof -
  assume "is_digit c" "is_digit d" "digit_val c = digit_val d"
  then have "(of_char c :: nat) = of_char d"
    unfolding is_digit_def digit_val_def by linarith
  then show "c = d" by simp
qed

lemma digit_val_pos: "is_digit c \<Longrightarrow> c \<noteq> CHR ''0'' \<Longrightarrow> 0 < digit_val c"
proof -
  assume d: "is_digit c" and n: "c \<noteq> CHR ''0''"
  have "(of_char c :: nat) \<noteq> of_char CHR ''0''"
    using n by (simp only: of_char_eq_iff) simp
  then have "(of_char c :: nat) \<noteq> 48" by simp
  with d show ?thesis unfolding is_digit_def digit_val_def by linarith
qed

lemma no_leading_zero_butlast: "no_leading_zero (s @ [c]) \<Longrightarrow> no_leading_zero s"
  by (cases s) (simp_all add: no_leading_zero_def)

lemma dec_val_pos: "no_leading_zero s \<Longrightarrow> s \<noteq> [] \<Longrightarrow> 0 < dec_val s"
proof (induction s rule: rev_induct)
  case Nil
  then show ?case by simp
next
  case (snoc c s)
  show ?case
  proof (cases "s = []")
    case True
    with snoc.prems show ?thesis
      by (simp add: dec_val_def no_leading_zero_def digit_val_pos)
  next
    case False
    with snoc have "0 < dec_val s"
      by (simp add: no_leading_zero_butlast)
    then show ?thesis by (simp add: dec_val_snoc)
  qed
qed

lemma dec_val_inj:
  "no_leading_zero s \<Longrightarrow> no_leading_zero t \<Longrightarrow> dec_val s = dec_val t \<Longrightarrow> s = t"
proof (induction s arbitrary: t rule: rev_induct)
  case Nil
  then show ?case
    using dec_val_pos [of t] by (cases "t = []") (simp_all add: dec_val_def)
next
  case (snoc c s)
  have "0 < dec_val (s @ [c])"
    using snoc.prems(1) by (simp add: dec_val_pos)
  with snoc.prems(3) have "t \<noteq> []"
    by (auto simp: dec_val_def)
  then obtain u d where t: "t = u @ [d]"
    by (metis rev_exhaust)
  from snoc.prems(1) have dc: "is_digit c" by (simp add: no_leading_zero_def)
  from snoc.prems(2) t have dd: "is_digit d" by (simp add: no_leading_zero_def)
  from snoc.prems(3) t have eq: "10 * dec_val s + digit_val c = 10 * dec_val u + digit_val d"
    by (simp add: dec_val_snoc)
  from digit_val_less [OF dc] digit_val_less [OF dd] eq
  have "dec_val s = dec_val u" "digit_val c = digit_val d"
    by presburger+
  moreover have "no_leading_zero s" "no_leading_zero u"
    using snoc.prems(1,2) t by (auto dest: no_leading_zero_butlast)
  ultimately have "s = u" "c = d"
    using snoc.IH dc dd digit_val_inj by blast+
  with t show ?case by simp
qed

lemma array_index_inj:
  assumes "is_array_index s" "is_array_index t" "dec_val s = dec_val t"
  shows "s = t"
proof (cases "s = ''0'' \<or> t = ''0''")
  case True
  have z: "dec_val ''0'' = 0" by (simp add: dec_val_def digit_val_def)
  have "u = ''0''" if "is_array_index u" "dec_val u = 0" for u
  proof (rule ccontr)
    assume "u \<noteq> ''0''"
    with that(1) have "no_leading_zero u" "u \<noteq> []"
      by (auto simp: is_array_index_def no_leading_zero_def)
    then have "0 < dec_val u" by (rule dec_val_pos)
    with that(2) show False by simp
  qed
  with True assms z show ?thesis by metis
next
  case False
  with assms(1,2) have "no_leading_zero s" "no_leading_zero t"
    by (auto simp: is_array_index_def no_leading_zero_def)
  with assms(3) show ?thesis by (rule dec_val_inj [rotated 2])
qed

lemma index_entries_sorted_eq:
  assumes "distinct (map fst c1)" "distinct (map fst c2)" "set c1 = set c2"
  shows "sort_key (\<lambda>e. dec_val (fst e)) (filter (\<lambda>e. is_array_index (fst e)) c1) =
         sort_key (\<lambda>e. dec_val (fst e)) (filter (\<lambda>e. is_array_index (fst e)) c2)"
proof (rule sort_key_inj_key_eq)
  let ?A = "filter (\<lambda>e. is_array_index (fst e)) c1"
  let ?B = "filter (\<lambda>e. is_array_index (fst e)) c2"
  from assms have "distinct ?A" "distinct ?B" "set ?A = set ?B"
    by (auto dest: distinct_map [THEN iffD1])
  then have "mset ?A = mset ?B"
    by (simp only: set_eq_iff_mset_eq_distinct)
  then show "mset ?A = mset (sort_key (\<lambda>e. dec_val (fst e)) ?B)"
    by simp
  show "sorted (map (\<lambda>e. dec_val (fst e)) (sort_key (\<lambda>e. dec_val (fst e)) ?B))"
    by (rule sorted_sort_key)
  from assms(1) have k: "inj_on fst (set c1)"
    by (simp add: distinct_map)
  show "inj_on (\<lambda>e. dec_val (fst e)) (set ?A)"
  proof (rule inj_onI)
    fix x y assume x: "x \<in> set ?A" and y: "y \<in> set ?A" and e: "dec_val (fst x) = dec_val (fst y)"
    then have "fst x = fst y"
      by (auto intro: array_index_inj)
    with k x y show "x = y"
      by (auto dest: inj_onD)
  qed
qed

subsection \<open>The key and the order of insertion\<close>

text \<open>
  C1, as the specification words it: two conditions with the same key/value pairs give
  the same key, whatever the order of insertion. \<open>JSON.stringify\<close> lists the properties
  in the object's own order, so two conditions that hold the same two pairs, inserted in
  opposite orders, give different keys.
\<close>

theorem makeKey_insertion_order_counterexample:
  "distinct (map fst [(''broadcaster_user_id'', ''1''), (''moderator_user_id'', ''2'')]) \<and>
   distinct (map fst [(''moderator_user_id'', ''2''), (''broadcaster_user_id'', ''1'')]) \<and>
   set [(''broadcaster_user_id'', ''1''), (''moderator_user_id'', ''2'')] =
   set [(''moderator_user_id'', ''2''), (''broadcaster_user_id'', ''1'')] \<and>
   makeKey ''channel.follow'' [(''broadcaster_user_id'', ''1''), (''moderator_user_id'', ''2'')] \<noteq>
   makeKey ''channel.follow'' [(''moderator_user_id'', ''2''), (''broadcaster_user_id'', ''1'')]"
  by (auto simp add: makeKey_def JSON_stringify_def own_entries_def is_array_index_def is_digit_def
      quote_string_def quote_char_def)

text \<open>
  C1, amended. Two conditions with the same key/value pairs give the same key when their
  keys that are not array indices were inserted in the same relative order; the order in
  which array-index keys were inserted does not matter. The key is a function of the type
  and of the condition alone.
\<close>

theorem makeKey_same_enumeration_order:
  assumes "distinct (map fst c1)" "distinct (map fst c2)" "set c1 = set c2"
    and "filter (\<lambda>e. \<not> is_array_index (fst e)) c1 = filter (\<lambda>e. \<not> is_array_index (fst e)) c2"
  shows "makeKey t c1 = makeKey t c2"
  using index_entries_sorted_eq [OF assms(1-3)] assms(4)
  by (simp add: makeKey_def JSON_stringify_def own_entries_def)

theorem makeKey_same_enumeration_order_witness:
  "makeKey ''t'' [(''a'', ''x''), (''1'', ''y''), (''b'', ''z''), (''0'', ''w'')] =
   makeKey ''t'' [(''0'', ''w''), (''a'', ''x''), (''b'', ''z''), (''1'', ''y'')]"
proof -
  let ?c1 = "[(''a'', ''x''), (''1'', ''y''), (''b'', ''z''), (''0'', ''w'')]"
  let ?c2 = "[(''0'', ''w''), (''a'', ''x''), (''b'', ''z''), (''1'', ''y'')]"
  have h1: "distinct (map fst ?c1)" by simp
  have h2: "distinct (map fst ?c2)" by simp
  have h3: "set ?c1 = set ?c2" by auto
  have h4: "filter (\<lambda>e. \<not> is_array_index (fst e)) ?c1 = filter (\<lambda>e. \<not> is_array_index (fst e)) ?c2"
    by (simp add: is_array_index_def is_digit_def dec_val_def digit_val_def)
  from makeKey_same_enumeration_order [OF h1 h2 h3 h4] show ?thesis .
qed

section \<open>Properties of the subscription manager\<close>

subsection \<open>Loading and saving the state\<close>

lemma loadState_cases:
  "loadState w = Inr (case stateFile w of Holds (Encoded v) \<Rightarrow> v | _ \<Rightarrow> JObj [])"
  by (simp add: loadState_def readFile_def JSON_parse_def split: medium.splits raw.splits)

lemma makeKey_no_array_index: "\<not> is_array_index (makeKey t c)"
proof
  assume "is_array_index (makeKey t c)"
  then have "list_all is_digit (makeKey t c)"
    by (simp add: is_array_index_def)
  moreover have "CHR '':'' \<in> set (makeKey t c)"
    by (simp add: makeKey_def)
  ultimately have "is_digit CHR '':''"
    by (simp add: list_all_iff)
  then show False
    by (simp add: is_digit_def)
qed



text \<open>
  C9, as the specification words it: a partial write never corrupts previously saved
  state. \<open>saveState\<close> writes in place: when the write fails after the file was truncated,
  the record that was saved before is lost, and the next load returns the empty mapping.
\<close>

theorem saveState_failed_write_counterexample:
  "loadState ensured_world =
     Inr (JObj [(makeKey ''stream.online'' [(''broadcaster_user_id'', ''1'')], online_record)]) \<and>
   fst (saveState crashing_env
          (JObj [(makeKey ''stream.online'' [(''broadcaster_user_id'', ''1'')], online_record),
                 (makeKey ''stream.offline'' [(''broadcaster_user_id'', ''1'')], online_record)])
          ensured_world) = Inl WriteError \<and>
   loadState (snd (saveState crashing_env
          (JObj [(makeKey ''stream.online'' [(''broadcaster_user_id'', ''1'')], online_record),
                 (makeKey ''stream.offline'' [(''broadcaster_user_id'', ''1'')], online_record)])
          ensured_world)) = Inr (JObj [])"
  by (simp add: loadState_def readFile_def JSON_parse_def saveState_def crashing_env_def
      mock_env_def ensured_world_def)

text \<open>
  C9, amended. \<open>saveState\<close> hands the whole mapping to one write over the state file.
  When the write succeeds, the file holds exactly that mapping, whatever it held before,
  and the next load returns it. When the write fails, the error is passed on, and the
  file is left as the failed write left it.
\<close>

theorem saveState_replaces_snapshot:
  "(disk e (writes w) = None \<longrightarrow>
      fst (saveState e st w) = Inr () \<and>
      stateFile (snd (saveState e st w)) = Holds (Encoded st) \<and>
      loadState (snd (saveState e st w)) = Inr st) \<and>
   (disk e (writes w) = Some m \<longrightarrow>
      fst (saveState e st w) = Inl WriteError \<and>
      stateFile (snd (saveState e st w)) = m)"
  by (simp add: saveState_def loadState_cases)

theorem saveState_replaces_snapshot_witness:
  "fst (saveState mock_env (JObj []) ensured_world) = Inr () \<and>
   stateFile (snd (saveState mock_env (JObj []) ensured_world)) = Holds (Encoded (JObj [])) \<and>
   loadState (snd (saveState mock_env (JObj []) ensured_world)) = Inr (JObj []) \<and>
   fst (saveState crashing_env (JObj []) ensured_world) = Inl WriteError \<and>
   stateFile (snd (saveState crashing_env (JObj []) ensured_world)) = Holds Garbled"
proof -
  have h1: "disk mock_env (writes ensured_world) = None"
    by (simp add: mock_env_def)
  have h2: "disk crashing_env (writes ensured_world) = Some (Holds Garbled)"
    by (simp add: crashing_env_def)
  note a = saveState_replaces_snapshot
             [where e = mock_env and w = ensured_world and st = "JObj []", THEN conjunct1, THEN mp, OF h1]
  note b = saveState_replaces_snapshot
             [where e = crashing_env and w = ensured_world and st = "JObj []" and m = "Holds Garbled",
              THEN conjunct2, THEN mp, OF h2]
  from a b show ?thesis by simp
qed

subsection \<open>The paths of \<open>ensureSubscription\<close>\<close>

lemma scheduleRenewal_keeps [simp]:
  "calls (scheduleRenewal e x t c cb sec w) = calls w"
  "stateFile (scheduleRenewal e x t c cb sec w) = stateFile w"
  "writes (scheduleRenewal e x t c cb sec w) = writes w"
  "ticks (scheduleRenewal e x t c cb sec w) = Suc (ticks w)"
  by (simp_all add: scheduleRenewal_def Date_now_def Let_def)

lemma member_record_object [simp]:
  "member (record_object r) ''expires_at'' = Some (JStr (expires_at r))"
  "truthy (Some (record_object r))"
  by (simp_all add: member_def record_object_def truthy_def)

lemma ensure_throws:
  assumes "loadState w = Inr st" "getProperty st (makeKey t c) = Inl err"
  shows "ensureSubscription e t c cb sec w = (Inl err, w)"
  using assms by (simp add: ensureSubscription_def)

lemma ensure_fresh:
  assumes "loadState w = Inr st" "getProperty st (makeKey t c) = Inr ex"
    and "is_fresh e ex (clock e (ticks w))"
  shows "\<exists>r. ex = Some r \<and> ensureSubscription e t c cb sec w =
    (Inr (), scheduleRenewal e (member r ''expires_at'') t c cb sec (w\<lparr>ticks := Suc (ticks w)\<rparr>))"
  using assms
  by (auto simp: ensureSubscription_def Date_now_def Let_def is_fresh_def split: option.splits)

lemma ensure_stale:
  assumes "loadState w = Inr st" "getProperty st (makeKey t c) = Inr ex"
    and "\<not> is_fresh e ex (clock e (ticks w))"
  shows "ensureSubscription e t c cb sec w =
    (let w2 = w\<lparr>ticks := Suc (ticks w), calls := calls w @ [(t, c, cb, sec)]\<rparr>;
         w3 = w2\<lparr>logs := logs w @ [''EventSub subscription requested'']\<rparr>
     in
     case remote e (length (calls w)) of
       Inl err \<Rightarrow> (Inl err, w2)
     | Inr [] \<Rightarrow> (Inl TypeError, w3)
     | Inr (sub # _) \<Rightarrow>
        (case setProperty st (makeKey t c)
                (record_object \<lparr>sub_id = d_id sub, sub_type = t, sub_condition = c,
                                expires_at = d_expires_at sub\<rparr>) of
           Inl err \<Rightarrow> (Inl err, w3)
         | Inr st' \<Rightarrow>
            (case disk e (writes w) of
               Some m \<Rightarrow> (Inl WriteError, w3\<lparr>stateFile := m, writes := Suc (writes w)\<rparr>)
             | None \<Rightarrow> (Inr (), scheduleRenewal e (Some (JStr (d_expires_at sub))) t c cb sec
                  (w2\<lparr>stateFile := Holds (Encoded st'),
                      writes := Suc (writes w),
                      logs := logs w @ [''EventSub subscription requested'',
                                        ''EventSub subscription ensured'']\<rparr>)))))"
  using assms
  by (simp add: ensureSubscription_def createEventSubSubscription_def Date_now_def Let_def
      saveState_def split: sum.splits list.splits option.splits)

lemma request_made_stale:
  assumes "ensureSubscription e t c cb sec w = (r, w')" and "calls w' \<noteq> calls w"
  obtains st ex where "loadState w = Inr st" and "getProperty st (makeKey t c) = Inr ex"
    and "\<not> is_fresh e ex (clock e (ticks w))"
proof -
  obtain st where st: "loadState w = Inr st"
    using loadState_cases by blast
  show thesis
  proof (cases "getProperty st (makeKey t c)")
    case (Inl err)
    from ensure_throws [OF st Inl, of e cb sec] assms have False by simp
    then show thesis ..
  next
    case (Inr ex)
    have "\<not> is_fresh e ex (clock e (ticks w))"
    proof
      assume "is_fresh e ex (clock e (ticks w))"
      from ensure_fresh [OF st Inr this, of cb sec] assms show False by auto
    qed
    with st Inr show thesis by (rule that)
  qed
qed

lemma mock_first_call:
  "ensureSubscription mock_env ''stream.online'' [(''broadcaster_user_id'', ''1'')] ''cb'' ''secret'' fresh_world
     = (Inr (), ensured_world)"
  by (simp add: ensureSubscription_def createEventSubSubscription_def loadState_def readFile_def
      JSON_parse_def Date_now_def is_fresh_def truthy_def getProperty_def setProperty_def member_def
      saveState_def scheduleRenewal_def mock_env_def fresh_world_def ensured_world_def
      online_record_def online_request_def Let_def)







text \<open>
  C5. When the request that \<open>ensureSubscription\<close> makes to the API is rejected, the call
  is rejected with that same error, after exactly one request, and the state file is
  not written.
\<close>

theorem ensureSubscription_request_error_propagates:
  assumes "remote e (length (calls w)) = Inl err"
    and "ensureSubscription e t c cb sec w = (r, w')" and "calls w' \<noteq> calls w"
  shows "r = Inl err \<and> stateFile w' = stateFile w \<and> writes w' = writes w \<and>
         calls w' = calls w @ [(t, c, cb, sec)]"
proof -
  from assms(2,3) obtain st ex where st: "loadState w = Inr st"
    and g: "getProperty st (makeKey t c) = Inr ex"
    and stale: "\<not> is_fresh e ex (clock e (ticks w))"
    by (rule request_made_stale)
  from ensure_stale [OF st g stale, of cb sec] assms(1,2) show ?thesis
    by (auto simp: Let_def)
qed

theorem ensureSubscription_request_error_propagates_witness:
  "ensureSubscription failing_env ''stream.online'' [(''broadcaster_user_id'', ''1'')] ''cb'' ''secret'' fresh_world
     = (Inl (RequestError ''503''), attempted_world) \<and>
   stateFile attempted_world = stateFile fresh_world \<and> writes attempted_world = writes fresh_world \<and>
   calls attempted_world = calls fresh_world @ [online_request]"
proof -
  have h1: "remote failing_env (length (calls fresh_world)) = Inl (RequestError ''503'')"
    by (simp add: failing_env_def)
  have h2: "ensureSubscription failing_env ''stream.online'' [(''broadcaster_user_id'', ''1'')] ''cb'' ''secret'' fresh_world
     = (Inl (RequestError ''503''), attempted_world)"
    by (simp add: ensureSubscription_def createEventSubSubscription_def loadState_def readFile_def
        JSON_parse_def Date_now_def is_fresh_def truthy_def getProperty_def member_def mock_env_def fresh_world_def online_request_def Let_def failing_env_def
        attempted_world_def)
  have h3: "calls attempted_world \<noteq> calls fresh_world"
    by (simp add: attempted_world_def fresh_world_def)
  from ensureSubscription_request_error_propagates [OF h1 h2 h3] h2 show ?thesis
    by (simp add: online_request_def)
qed

text \<open>
  C10. When the API answers the request with an empty \<open>data\<close> array, reading the first
  descriptor fails: \<open>ensureSubscription\<close> is rejected with a TypeError and the state
  file is not written.
\<close>

theorem ensureSubscription_empty_data_fails:
  assumes "remote e (length (calls w)) = Inr []"
    and "ensureSubscription e t c cb sec w = (r, w')" and "calls w' \<noteq> calls w"
  shows "r = Inl TypeError \<and> stateFile w' = stateFile w \<and> writes w' = writes w"
proof -
  from assms(2,3) obtain st ex where st: "loadState w = Inr st"
    and g: "getProperty st (makeKey t c) = Inr ex"
    and stale: "\<not> is_fresh e ex (clock e (ticks w))"
    by (rule request_made_stale)
  from ensure_stale [OF st g stale, of cb sec] assms(1,2) show ?thesis
    by (auto simp: Let_def)
qed

theorem ensureSubscription_empty_data_fails_witness:
  "ensureSubscription empty_env ''stream.online'' [(''broadcaster_user_id'', ''1'')] ''cb'' ''secret'' fresh_world
     = (Inl TypeError, answered_world) \<and>
   stateFile answered_world = stateFile fresh_world \<and> writes answered_world = writes fresh_world"
proof -
  have h1: "remote empty_env (length (calls fresh_world)) = Inr []"
    by (simp add: empty_env_def)
  have h2: "ensureSubscription empty_env ''stream.online'' [(''broadcaster_user_id'', ''1'')] ''cb'' ''secret'' fresh_world
     = (Inl TypeError, answered_world)"
    by (simp add: ensureSubscription_def createEventSubSubscription_def loadState_def readFile_def
        JSON_parse_def Date_now_def is_fresh_def truthy_def getProperty_def member_def mock_env_def fresh_world_def online_request_def Let_def empty_env_def
        answered_world_def attempted_world_def)
  have h3: "calls answered_world \<noteq> calls fresh_world"
    by (simp add: answered_world_def attempted_world_def fresh_world_def)
  from ensureSubscription_empty_data_fails [OF h1 h2 h3] h2 show ?thesis
    by simp
qed

section \<open>Properties of the command dispatcher\<close>

subsection \<open>Splitting and joining\<close>

lemma split_nonempty: "split sep s \<noteq> []"
  by (induction s) (simp_all add: Let_def)

lemma hd_split: "hd (split sep s) = takeWhile (\<lambda>c. c \<noteq> sep) s"
  by (induction s) (simp_all add: Let_def)

lemma join_Cons_Cons: "join sp ((c # x) # xs) = c # join sp (x # xs)"
  by (cases xs) simp_all

lemma join_split: "join [sep] (split sep s) = s"
proof (induction s)
  case Nil
  show ?case by simp
next
  case (Cons c cs)
  show ?case
  proof (cases "c = sep")
    case True
    with Cons show ?thesis
      by (cases "split sep cs") (simp_all add: split_nonempty)
  next
    case False
    have "join [sep] ((c # hd (split sep cs)) # tl (split sep cs)) =
        c # join [sep] (hd (split sep cs) # tl (split sep cs))"
      by (rule join_Cons_Cons)
    with False Cons show ?thesis
      by (simp add: Let_def split_nonempty)
  qed
qed

lemma join_tl_split: "join [sep] (tl (split sep s)) = drop (Suc 0) (dropWhile (\<lambda>c. c \<noteq> sep) s)"
  by (induction s) (simp_all add: Let_def join_split)

lemma slice_prefix: "slice (c # body) 1 = body" "slice (c # body) (Suc 0) = body"
  by (simp_all add: slice_def)

lemmas parse_message = slice_prefix hd_split join_tl_split

lemmas bot_defs = handleMessage_def startsWith_def slice_def toLowerCase_def lower_char_def
  getRole_def badge_def throttleKey_def invoke_def registerCommand_def ping_bot_def new_bot_def
  alice_def still_clock_def Let_def char_of_def bit_0

subsection \<open>Discarded messages\<close>

text \<open>
  C7. A message of the bot itself, or a message that does not start with \<open>!\<close>, leaves the
  bot as it was: no handler is called, the counter and the throttle ledger keep their
  values, whether or not the text names a registered command.
\<close>

theorem handleMessage_discards_self_and_unprefixed:
  assumes "self \<or> \<not> startsWith message ''!''"
  shows "handleMessage now_at channel userstate message self b = b"
  using assms by (simp add: handleMessage_def)

theorem handleMessage_discards_self_and_unprefixed_witness:
  "commands ping_bot (toLowerCase ''ping'') \<noteq> None \<and>
   handleMessage (still_clock 5000) ''#chan'' alice ''!ping'' True ping_bot = ping_bot \<and>
   handleMessage (still_clock 5000) ''#chan'' alice ''ping'' False ping_bot = ping_bot"
proof -
  have h1: "True \<or> \<not> startsWith ''!ping'' ''!''" by simp
  have h2: "False \<or> \<not> startsWith ''ping'' ''!''" by (simp add: startsWith_def)
  have "commands ping_bot (toLowerCase ''ping'') \<noteq> None"
    by (simp add: ping_bot_def registerCommand_def)
  with handleMessage_discards_self_and_unprefixed [OF h1, of "still_clock 5000" "''#chan''" alice ping_bot]
    handleMessage_discards_self_and_unprefixed [OF h2, of "still_clock 5000" "''#chan''" alice ping_bot]
  show ?thesis by simp
qed

subsection \<open>Parsing and the handler's arguments\<close>

text \<open>
  C8, as the specification words it: the argument string handed to the handler is what
  follows the first whitespace run. The code splits at single spaces: after
  \<open>!ping\<close>, two spaces and \<open>now\<close>, the handler receives \<open>now\<close> with one leading space.
\<close>

theorem handleMessage_whitespace_run_counterexample:
  "invoked (handleMessage (still_clock 5000) ''#chan'' alice ''!ping  now'' False ping_bot) =
     invoked ping_bot @ [(0, ''#chan'', alice, '' now'')] \<and>
   '' now'' \<noteq> spec_argsRemainder ''ping  now'' \<and>
   spec_commandName ''ping  now'' = ''ping''"
  by (simp add: bot_defs spec_argsRemainder_def spec_commandName_def is_whitespace_def)

text \<open>
  C8, amended. For a message \<open>!\<close> followed by \<open>body\<close>, the command is looked up under the
  lowercased text of \<open>body\<close> before its first space character, and, when the role check and
  the cooldown let the message through, the handler is called once with the channel, the
  user and the text of \<open>body\<close> after that first space (empty when there is no space).
\<close>

theorem handleMessage_args_after_first_space:
  assumes "\<not> self" and "message = CHR ''!'' # body"
    and "commands b (toLowerCase (takeWhile (\<lambda>c. c \<noteq> CHR '' '') body)) = Some en"
    and "\<forall>rs. roles (options en) = Some rs \<longrightarrow> getRole userstate \<in> set rs"
    and "\<forall>cd. cooldownMs (options en) = Some cd \<longrightarrow> cd \<noteq> 0 \<longrightarrow>
           \<not> now_at (reads b)
              - (case lastRun b (throttleKey userstate (takeWhile (\<lambda>c. c \<noteq> CHR '' '') body)) of
                   None \<Rightarrow> 0 | Some t \<Rightarrow> t) < cd"
  shows "invoked (handleMessage now_at channel userstate message self b) =
           invoked b @ [(handler en, channel, userstate, drop 1 (dropWhile (\<lambda>c. c \<noteq> CHR '' '') body))]"
proof -
  have "invoked (invoke en channel userstate (tl (split CHR '' '' (slice message 1))) b') =
      invoked b' @ [(handler en, channel, userstate, drop 1 (dropWhile (\<lambda>c. c \<noteq> CHR '' '') body))]" for b'
    using assms(2) by (simp add: invoke_def parse_message)
  with assms show ?thesis
    by (simp add: handleMessage_def startsWith_def parse_message Let_def split: option.splits)
qed

theorem handleMessage_args_after_first_space_witness:
  "invoked (handleMessage (still_clock 5000) ''#chan'' alice ''!Ping hello  world'' False ping_bot) =
     [(0, ''#chan'', alice, ''hello  world'')]"
proof -
  let ?en = "\<lparr>handler = 0, options = \<lparr>cooldownMs = Some 1000, roles = None\<rparr>\<rparr>"
  have h1: "\<not> False" by simp
  have h2: "''!Ping hello  world'' = CHR ''!'' # ''Ping hello  world''" by simp
  have h3: "commands ping_bot (toLowerCase (takeWhile (\<lambda>c. c \<noteq> CHR '' '') ''Ping hello  world'')) = Some ?en"
    by (simp add: bot_defs)
  have h4: "\<forall>rs. roles (options ?en) = Some rs \<longrightarrow> getRole alice \<in> set rs" by simp
  have h5: "\<forall>cd. cooldownMs (options ?en) = Some cd \<longrightarrow> cd \<noteq> 0 \<longrightarrow>
           \<not> still_clock 5000 (reads ping_bot)
              - (case lastRun ping_bot (throttleKey alice (takeWhile (\<lambda>c. c \<noteq> CHR '' '') ''Ping hello  world'')) of
                   None \<Rightarrow> 0 | Some t \<Rightarrow> t) < cd"
    by (simp add: bot_defs)
  from handleMessage_args_after_first_space
         [where self = False and message = "''!Ping hello  world''" and body = "''Ping hello  world''"
            and b = ping_bot and en = ?en and userstate = alice and now_at = "still_clock 5000"
            and channel = "''#chan''", OF h1 h2 h3 h4 h5]
  show ?thesis
    by (simp add: ping_bot_def new_bot_def registerCommand_def)
qed

subsection \<open>The cooldown\<close>

lemma handleMessage_throttled:
  assumes "\<not> self" and "message = CHR ''!'' # body"
    and "commands b (toLowerCase (takeWhile (\<lambda>c. c \<noteq> CHR '' '') body)) = Some en"
    and "\<forall>rs. roles (options en) = Some rs \<longrightarrow> getRole userstate \<in> set rs"
    and "cooldownMs (options en) = Some cd" and "cd \<noteq> 0"
    and "now_at (reads b)
           - (case lastRun b (throttleKey userstate (takeWhile (\<lambda>c. c \<noteq> CHR '' '') body)) of
                None \<Rightarrow> 0 | Some t \<Rightarrow> t) < cd"
  shows "invoked (handleMessage now_at channel userstate message self b) = invoked b \<and>
         lastRun (handleMessage now_at channel userstate message self b) = lastRun b"
  using assms
  by (simp add: handleMessage_def startsWith_def parse_message Let_def split: option.splits)

lemma handleMessage_records_run:
  assumes "\<not> self" and "message = CHR ''!'' # body"
    and "commands b (toLowerCase (takeWhile (\<lambda>c. c \<noteq> CHR '' '') body)) = Some en"
    and "\<forall>rs. roles (options en) = Some rs \<longrightarrow> getRole userstate \<in> set rs"
    and "cooldownMs (options en) = Some cd" and "cd \<noteq> 0"
    and "\<not> now_at (reads b)
           - (case lastRun b (throttleKey userstate (takeWhile (\<lambda>c. c \<noteq> CHR '' '') body)) of
                None \<Rightarrow> 0 | Some t \<Rightarrow> t) < cd"
  shows "lastRun (handleMessage now_at channel userstate message self b) =
           (lastRun b)(throttleKey userstate (takeWhile (\<lambda>c. c \<noteq> CHR '' '') body) \<mapsto> now_at (reads b))"
  using assms
  by (simp add: handleMessage_def startsWith_def parse_message invoke_def Let_def split: option.splits)

text \<open>
  C4. The throttle key is built from the command token as it was typed, while the
  registry is looked up under the lowercased token. With \<open>ping\<close> registered at a cooldown
  of 1000 ms and the clock standing still, the same user sending \<open>!ping\<close> twice calls the
  handler once, but sending \<open>!ping\<close> and then \<open>!PING\<close> calls it twice: the second message
  is throttled under the key \<open>1:PING\<close>, which has no entry in the ledger.
\<close>

theorem handleMessage_cooldown_case_variant:
  "invoked (handleMessage (still_clock 5000) ''#chan'' alice ''!ping'' False
      (handleMessage (still_clock 5000) ''#chan'' alice ''!ping'' False ping_bot))
     = [(0, ''#chan'', alice, [])] \<and>
   invoked (handleMessage (still_clock 5000) ''#chan'' alice ''!PING'' False
      (handleMessage (still_clock 5000) ''#chan'' alice ''!ping'' False ping_bot))
     = [(0, ''#chan'', alice, []), (0, ''#chan'', alice, [])] \<and>
   lastRun (handleMessage (still_clock 5000) ''#chan'' alice ''!PING'' False
      (handleMessage (still_clock 5000) ''#chan'' alice ''!ping'' False ping_bot)) ''1:PING''
     = Some 5000"
  by (simp add: bot_defs)

end
